theory Spec2Isabelle
  imports Main "HOL-Library.Word"
begin

section \<open>Data model\<close>

text \<open>
  The handlers of \<^verbatim>\<open>cmd/dashboard/controller/user.go\<close>. Identities are Go's
  \<^verbatim>\<open>uint64\<close>, strings are byte sequences (Go's \<^verbatim>\<open>len\<close> counts bytes), and Go's
  \<^verbatim>\<open>int\<close> is the 64-bit signed integer of the platforms the dashboard is built for.
\<close>

type_synonym uint64 = "64 word"

text \<open>
  Modelled from the spec: the role constants of package \<^verbatim>\<open>model\<close>
  (\<^verbatim>\<open>model.RoleMember\<close> and its siblings) are declared outside the controller; the
  specification's data model names the roles member and administrator.
\<close>

datatype role = RoleAdmin | RoleMember

record User =
  ID :: uint64
  Username :: string
  Password :: string
  Role :: role

text \<open>The request bodies \<^verbatim>\<open>model.UserForm\<close> and \<^verbatim>\<open>model.ProfileForm\<close>, with the fields
  the handlers read. Both are extensible records, so a form may carry further fields.\<close>

record UserForm =
  Username :: string
  Password :: string

record ProfileForm =
  OriginalPassword :: string
  NewUsername :: string
  NewPassword :: string

record Profile =
  User :: User
  LoginIP :: string

record Pagination =
  Offset :: int
  Limit :: int
  Total :: int

record 'u Paginated =
  Value :: "'u list"
  Pagination :: Pagination

subsection \<open>Errors\<close>

text \<open>
  The handlers build their errors in three ways: \<^verbatim>\<open>singleton.Localizer.ErrorT(key)\<close>,
  \<^verbatim>\<open>newGormError(format, err)\<close>, and errors handed through unchanged from a library call
  (JSON binding, bcrypt, the database handle). \<open>MalformedAddress\<close> is the error of the
  address check of the blocking gate.
\<close>

datatype error =
    ErrorT string
  | GormError string error
  | LibError string
  | MalformedAddress string

text \<open>
  Modelled from the spec: \<^verbatim>\<open>newGormError\<close> is declared in another file of the controller.
  The specification calls it an error-formatting callback; the model keeps the format and
  the error it is applied to.
\<close>

definition newGormError :: "string \<Rightarrow> error \<Rightarrow> error" where
  "newGormError format err = GormError format err"

text \<open>
  Section 7 of the specification names error kinds by their cause. \<open>spec_error_kind\<close>
  reads that taxonomy onto the errors the handlers construct: the message keys of the
  short secret and the empty name are validation errors, those of the missing identity and
  the secret mismatch are authentication errors, the self-deletion key is a conflict, and a
  malformed address is a validation error. \<^verbatim>\<open>newGormError\<close> formats the error it is given
  and does not change its cause, so a wrapped error has the kind of the error it wraps.
  An error a library hands through carries no cause that the taxonomy could be read from.
\<close>

datatype error_kind =
    ValidationError | AuthenticationError | ConflictError | PersistenceError | Unclassified

fun spec_error_kind :: "error \<Rightarrow> error_kind" where
  "spec_error_kind (ErrorT key) =
     (if key = ''password length must be greater than 6'' then ValidationError
      else if key = ''username can't be empty'' then ValidationError
      else if key = ''unauthorized'' then AuthenticationError
      else if key = ''incorrect password'' then AuthenticationError
      else if key = ''can't delete yourself'' then ConflictError
      else Unclassified)"
| "spec_error_kind (GormError format err) = spec_error_kind err"
| "spec_error_kind (LibError msg) = Unclassified"
| "spec_error_kind (MalformedAddress a) = ValidationError"

text \<open>A handler returns a value, returns an error, or panics (\<^verbatim>\<open>MustGet\<close> on a missing
  key, a failed type assertion).\<close>

datatype 'a outcome = Ok 'a | Fail error | Panic

subsection \<open>The request context\<close>

text \<open>
  The part of \<^verbatim>\<open>gin.Context\<close> the handlers use: the key/value store filled by the
  authentication middleware (\<^verbatim>\<open>c.Get\<close>, \<^verbatim>\<open>c.MustGet\<close>, \<^verbatim>\<open>c.GetString\<close>), the result of
  \<^verbatim>\<open>c.ShouldBindJSON\<close> on the request body, and the query parameters (\<^verbatim>\<open>c.Query\<close>).
  The two context keys are constants of package \<^verbatim>\<open>model\<close>; values are dynamically typed.
\<close>

datatype ctx_key = CtxKeyAuthorizedUser | CtxKeyRealIPStr

datatype ctx_value = UserPtr User | Str string

record 'b Context =
  Keys :: "ctx_key \<rightharpoonup> ctx_value"
  ShouldBindJSON :: "error + 'b"
  QueryParams :: "string \<rightharpoonup> string"

definition GetString :: "('b, 'z) Context_scheme \<Rightarrow> ctx_key \<Rightarrow> string" where
  "GetString c k = (case Keys c k of Some (Str s) \<Rightarrow> s | _ \<Rightarrow> [])"

definition Query :: "('b, 'z) Context_scheme \<Rightarrow> string \<Rightarrow> string" where
  "Query c k = (case QueryParams c k of Some v \<Rightarrow> v | None \<Rightarrow> [])"

section \<open>Handlers\<close>

definition getProfile :: "('b, 'z) Context_scheme \<Rightarrow> Profile outcome" where
  "getProfile c =
     (case Keys c CtxKeyAuthorizedUser of
        None \<Rightarrow> Fail (ErrorT ''unauthorized'')
      | Some auth \<Rightarrow>
          (case auth of
             UserPtr u \<Rightarrow> Ok \<lparr>User = u, LoginIP = GetString c CtxKeyRealIPStr\<rparr>
           | Str s \<Rightarrow> Panic))"

subsection \<open>Collaborators\<close>

text \<open>
  The handlers reach the credential hasher (bcrypt), the durable store
  (\<^verbatim>\<open>singleton.DB\<close>) and the session registry and gate (package \<^verbatim>\<open>singleton\<close>) through
  calls whose bodies are outside the controller. They are parameters of the model: each
  takes the state of the world \<open>'w\<close> and returns its result with the new state, so a call
  that is not made leaves no trace in the state, whatever the collaborator would have done.
  \<^verbatim>\<open>DB.Omit(cols).Find(&users)\<close> is one call that takes the omitted columns.
  \<^verbatim>\<open>DB.Create(&u)\<close> fills in the fields the store assigns and so returns the record.
\<close>

record ('w, 'u) services =
  CompareHashAndPassword :: "string \<Rightarrow> string \<Rightarrow> error option"
  GenerateFromPassword :: "string \<Rightarrow> int \<Rightarrow> 'w \<Rightarrow> (error + string) \<times> 'w"
  DB_Save :: "User \<Rightarrow> 'w \<Rightarrow> error option \<times> 'w"
  DB_Omit_Find :: "string list \<Rightarrow> 'w \<Rightarrow> (error + User list) \<times> 'w"
  DB_Create :: "User \<Rightarrow> 'w \<Rightarrow> (error + User) \<times> 'w"
  OnUserUpdate :: "User \<Rightarrow> 'w \<Rightarrow> 'w"
  OnUserDelete :: "uint64 list \<Rightarrow> (string \<Rightarrow> error \<Rightarrow> error) \<Rightarrow> 'w \<Rightarrow> error option \<times> 'w"
  GetOnlineUsers :: "int \<Rightarrow> int \<Rightarrow> 'w \<Rightarrow> 'u list \<times> 'w"
  GetOnlineUserCount :: "'w \<Rightarrow> int \<times> 'w"
  BlockByIPs :: "string list \<Rightarrow> 'w \<Rightarrow> error option \<times> 'w"

definition DefaultCost :: int where
  "DefaultCost = 10"

subsection \<open>Profile rotation\<close>

definition updateProfile ::
  "('w, 'u) services \<Rightarrow> (ProfileForm, 'z) Context_scheme \<Rightarrow> 'w \<Rightarrow> unit outcome \<times> 'w" where
  "updateProfile sv c w =
     (case ShouldBindJSON c of
        Inl err \<Rightarrow> (Fail err, w)
      | Inr pf \<Rightarrow>
          (case Keys c CtxKeyAuthorizedUser of
             None \<Rightarrow> (Fail (ErrorT ''unauthorized''), w)
           | Some auth \<Rightarrow>
               (case auth of
                  Str s \<Rightarrow> (Panic, w)
                | UserPtr user \<Rightarrow>
                    (case CompareHashAndPassword sv (User.Password user) (OriginalPassword pf) of
                       Some err \<Rightarrow> (Fail (ErrorT ''incorrect password''), w)
                     | None \<Rightarrow>
                         (case GenerateFromPassword sv (NewPassword pf) DefaultCost w of
                            (Inl err, w1) \<Rightarrow> (Fail err, w1)
                          | (Inr hash, w1) \<Rightarrow>
                              (case DB_Save sv
                                      (user\<lparr>User.Username := NewUsername pf,
                                            User.Password := hash\<rparr>) w1 of
                                 (Some err, w2) \<Rightarrow> (Fail (newGormError ''%v'' err), w2)
                               | (None, w2) \<Rightarrow> (Ok (), w2)))))))"

subsection \<open>Account listing and creation\<close>

definition listUser ::
  "('w, 'u) services \<Rightarrow> ('b, 'z) Context_scheme \<Rightarrow> 'w \<Rightarrow> User list outcome \<times> 'w" where
  "listUser sv c w =
     (case DB_Omit_Find sv [''password''] w of
        (Inl err, w1) \<Rightarrow> (Fail err, w1)
      | (Inr users, w1) \<Rightarrow> (Ok users, w1))"

definition createUser ::
  "('w, 'u) services \<Rightarrow> ('f UserForm_scheme, 'z) Context_scheme \<Rightarrow> 'w \<Rightarrow> uint64 outcome \<times> 'w" where
  "createUser sv c w =
     (case ShouldBindJSON c of
        Inl err \<Rightarrow> (Fail err, w)
      | Inr uf \<Rightarrow>
          if length (UserForm.Password uf) < 6
          then (Fail (ErrorT ''password length must be greater than 6''), w)
          else if UserForm.Username uf = []
          then (Fail (ErrorT ''username can't be empty''), w)
          else
            (case GenerateFromPassword sv (UserForm.Password uf) DefaultCost w of
               (Inl err, w1) \<Rightarrow> (Fail err, w1)
             | (Inr hash, w1) \<Rightarrow>
                 (case DB_Create sv
                         \<lparr>ID = 0, Username = UserForm.Username uf, Password = hash,
                          Role = RoleMember\<rparr> w1 of
                    (Inl err, w2) \<Rightarrow> (Fail err, w2)
                  | (Inr u, w2) \<Rightarrow> (Ok (ID u), OnUserUpdate sv u w2))))"

text \<open>
  The specification counts a secret in characters, the handler in bytes. In the UTF-8
  text of a request body a character is a leading byte followed by its continuation bytes
  (those from 0x80 to 0xBF), so the characters of a string are its bytes that are not
  continuation bytes. The handler does not use this count.
\<close>

definition is_continuation :: "char \<Rightarrow> bool" where
  "is_continuation ch = (128 \<le> (of_char ch :: nat) \<and> (of_char ch :: nat) < 192)"

definition characters :: "string \<Rightarrow> nat" where
  "characters s = length (filter (\<lambda>ch. \<not> is_continuation ch) s)"

subsection \<open>Batch deletion\<close>

definition batchDeleteUser ::
  "('w, 'u) services \<Rightarrow> (uint64 list, 'z) Context_scheme \<Rightarrow> 'w \<Rightarrow> unit outcome \<times> 'w" where
  "batchDeleteUser sv c w =
     (case ShouldBindJSON c of
        Inl err \<Rightarrow> (Fail err, w)
      | Inr ids \<Rightarrow>
          (case Keys c CtxKeyAuthorizedUser of
             None \<Rightarrow> (Panic, w)
           | Some (Str s) \<Rightarrow> (Panic, w)
           | Some (UserPtr auth) \<Rightarrow>
               if ID auth \<in> set ids
               then (Fail (ErrorT ''can't delete yourself''), w)
               else
                 (case OnUserDelete sv ids newGormError w of
                    (Some err, w1) \<Rightarrow> (Fail err, w1)
                  | (None, w1) \<Rightarrow> (Ok (), w1))))"

subsection \<open>Online users\<close>

text \<open>
  \<^verbatim>\<open>strconv.Atoi\<close> of the Go standard library for a 64-bit \<^verbatim>\<open>int\<close>: an optional sign,
  then at least one decimal digit and nothing else, the value within the range of the
  type. Go tells a syntax error from a range error; the handler only tests for an error.
\<close>

definition is_digit :: "char \<Rightarrow> bool" where
  "is_digit ch = (48 \<le> (of_char ch :: nat) \<and> (of_char ch :: nat) \<le> 57)"

fun digits :: "string \<Rightarrow> nat \<Rightarrow> nat option" where
  "digits [] n = Some n"
| "digits (ch # s) n =
     (if is_digit ch then digits s (n * 10 + (of_char ch - 48)) else None)"

definition Atoi :: "string \<Rightarrow> error + int" where
  "Atoi s0 =
     (case s0 of
        [] \<Rightarrow> Inl (LibError ''strconv.Atoi'')
      | ch # rest \<Rightarrow>
          (let s = (if ch = CHR ''-'' \<or> ch = CHR ''+'' then rest else s0) in
           if s = [] then Inl (LibError ''strconv.Atoi'')
           else
             (case digits s 0 of
                None \<Rightarrow> Inl (LibError ''strconv.Atoi'')
              | Some n \<Rightarrow>
                  if ch = CHR ''-''
                  then (if 2 ^ 63 < n then Inl (LibError ''strconv.Atoi'') else Inr (- int n))
                  else (if 2 ^ 63 \<le> n then Inl (LibError ''strconv.Atoi'') else Inr (int n)))))"

definition listOnlineUser ::
  "('w, 'u) services \<Rightarrow> ('b, 'z) Context_scheme \<Rightarrow> 'w \<Rightarrow> 'u Paginated outcome \<times> 'w" where
  "listOnlineUser sv c w =
     (let limit = (case Atoi (Query c ''limit'') of
                     Inl err \<Rightarrow> 25
                   | Inr n \<Rightarrow> if n < 1 then 25 else n);
          offset = (case Atoi (Query c ''offset'') of
                      Inl err \<Rightarrow> 0
                    | Inr n \<Rightarrow> if n < 0 then 0 else n)
      in (case GetOnlineUsers sv limit offset w of
            (users, w1) \<Rightarrow>
              (case GetOnlineUserCount sv w1 of
                 (count, w2) \<Rightarrow>
                   (Ok \<lparr>Value = users,
                        Pagination = \<lparr>Offset = offset, Limit = limit, Total = count\<rparr>\<rparr>, w2))))"

definition batchBlockOnlineUser ::
  "('w, 'u) services \<Rightarrow> (string list, 'z) Context_scheme \<Rightarrow> 'w \<Rightarrow> unit outcome \<times> 'w" where
  "batchBlockOnlineUser sv c w =
     (case ShouldBindJSON c of
        Inl err \<Rightarrow> (Fail err, w)
      | Inr list \<Rightarrow>
          (case BlockByIPs sv list w of
             (Some err, w1) \<Rightarrow> (Fail (newGormError ''%v'' err), w1)
           | (None, w1) \<Rightarrow> (Ok (), w1)))"

section \<open>The registry and the gate\<close>

text \<open>
  Modelled from the spec: the session record \<^verbatim>\<open>model.OnlineUser\<close> and the gate operation
  \<^verbatim>\<open>singleton.BlockByIPs\<close> are outside the controller. A session has an owner, an
  originating address and a connection time (section 3). The state holds the accounts of
  the durable store, the block set, the live sessions, and a log of the calls made to the
  collaborators, which is there to observe them. \<open>Block\<close> follows section 4.2: it
  validates each address and fails on a malformed one; otherwise it adds all addresses to
  the block set and evicts the sessions that come from them. What a well-formed address
  is, is left to the parameter \<open>wellformed\<close>.
\<close>

record OnlineUser =
  UserID :: uint64
  IP :: string
  ConnectedAt :: int

datatype call =
    Hashed string
  | Saved User
  | Found "string list"
  | Created User
  | Updated User
  | Deleted "uint64 list"
  | Listed int int
  | Counted
  | Blocked "string list"

record world =
  Accounts :: "User list"
  BlockSet :: "string set"
  Sessions :: "OnlineUser list"
  Log :: "call list"

definition Block :: "(string \<Rightarrow> bool) \<Rightarrow> string list \<Rightarrow> world \<Rightarrow> error option \<times> world" where
  "Block wellformed addresses w =
     (case find (\<lambda>a. \<not> wellformed a) addresses of
        Some a \<Rightarrow> (Some (MalformedAddress a), w)
      | None \<Rightarrow>
          (None, w\<lparr>BlockSet := BlockSet w \<union> set addresses,
                   Sessions := filter (\<lambda>s. IP s \<notin> set addresses) (Sessions w),
                   Log := Log w @ [Blocked addresses]\<rparr>))"

subsection \<open>The contract of the store's column selection\<close>

text \<open>
  The contract of the store's \<^verbatim>\<open>Omit\<close>: a column named there is not selected, so in
  every returned record the field of that column holds Go's zero value. The column of the
  field \<^verbatim>\<open>Password\<close> is \<^verbatim>\<open>password\<close>, and the only column the controller omits.
\<close>

definition Omit_contract :: "('w, 'u) services \<Rightarrow> bool" where
  "Omit_contract sv =
     (\<forall>cols w users w1.
        DB_Omit_Find sv cols w = (Inr users, w1) \<and> ''password'' \<in> set cols \<longrightarrow>
        (\<forall>u \<in> set users. User.Password u = []))"

section \<open>A reference instance\<close>

text \<open>
  An in-memory instance of the collaborators, on which the handlers run on concrete
  requests: a table of accounts, a hasher that tags and reverses the secret and refuses
  more than 72 bytes, dotted-quad addresses, and a log of the calls that were made. Every
  call but the pure comparison appends itself to the log.
\<close>

fun split_dots :: "string \<Rightarrow> string \<Rightarrow> string list" where
  "split_dots [] part = [part]"
| "split_dots (ch # s) part =
     (if ch = CHR ''.'' then part # split_dots s [] else split_dots s (part @ [ch]))"

definition octet :: "string \<Rightarrow> bool" where
  "octet p =
     (p \<noteq> [] \<and> length p \<le> 3 \<and> (case digits p 0 of None \<Rightarrow> False | Some n \<Rightarrow> n \<le> 255))"

definition is_ipv4 :: "string \<Rightarrow> bool" where
  "is_ipv4 a = (let parts = split_dots a [] in length parts = 4 \<and> list_all octet parts)"

definition mem_hash :: "string \<Rightarrow> string" where
  "mem_hash secret = ''$2a$10$'' @ rev secret"

definition mem :: "(world, OnlineUser) services" where
  "mem = \<lparr>
     CompareHashAndPassword = (\<lambda>hash secret.
       if hash = mem_hash secret then None else Some (LibError ''bcrypt: mismatch'')),
     GenerateFromPassword = (\<lambda>secret cost w.
       if 72 < length secret then (Inl (LibError ''bcrypt: password too long''), w)
       else (Inr (mem_hash secret), w\<lparr>Log := Log w @ [Hashed secret]\<rparr>)),
     DB_Save = (\<lambda>u w.
       (None, w\<lparr>Accounts := map (\<lambda>r. if ID r = ID u then u else r) (Accounts w),
                Log := Log w @ [Saved u]\<rparr>)),
     DB_Omit_Find = (\<lambda>cols w.
       (Inr (map (\<lambda>r. if ''password'' \<in> set cols then r\<lparr>User.Password := []\<rparr> else r)
               (Accounts w)),
        w\<lparr>Log := Log w @ [Found cols]\<rparr>)),
     DB_Create = (\<lambda>u w.
       (let r = u\<lparr>ID := 1 + of_nat (length (Accounts w))\<rparr>
        in (Inr r, w\<lparr>Accounts := Accounts w @ [r], Log := Log w @ [Created r]\<rparr>))),
     OnUserUpdate = (\<lambda>u w. w\<lparr>Log := Log w @ [Updated u]\<rparr>),
     OnUserDelete = (\<lambda>ids sink w.
       (None, w\<lparr>Accounts := filter (\<lambda>r. ID r \<notin> set ids) (Accounts w),
                Sessions := filter (\<lambda>s. UserID s \<notin> set ids) (Sessions w),
                Log := Log w @ [Deleted ids]\<rparr>)),
     GetOnlineUsers = (\<lambda>limit offset w.
       (take (nat limit) (drop (nat offset) (Sessions w)),
        w\<lparr>Log := Log w @ [Listed limit offset]\<rparr>)),
     GetOnlineUserCount = (\<lambda>w. (int (length (Sessions w)), w\<lparr>Log := Log w @ [Counted]\<rparr>)),
     BlockByIPs = Block is_ipv4\<rparr>"

definition admin :: User where
  "admin = \<lparr>ID = 1, Username = ''admin'', Password = mem_hash ''hunter22'', Role = RoleAdmin\<rparr>"

definition ops :: User where
  "ops = \<lparr>ID = 2, Username = ''ops'', Password = mem_hash ''abcdef'', Role = RoleMember\<rparr>"

definition world0 :: world where
  "world0 = \<lparr>Accounts = [admin, ops], BlockSet = {},
     Sessions = [\<lparr>UserID = 1, IP = ''10.0.0.1'', ConnectedAt = 100\<rparr>,
                 \<lparr>UserID = 2, IP = ''10.0.0.2'', ConnectedAt = 200\<rparr>],
     Log = []\<rparr>"

definition ops2 :: User where
  "ops2 = \<lparr>ID = 3, Username = ''ops2'', Password = mem_hash ''abcdef'', Role = RoleMember\<rparr>"

text \<open>Three times the letter e with an acute accent (U+00E9), two bytes each in UTF-8:
  a secret of three characters and six bytes.\<close>

definition e_acute3 :: string where
  "e_acute3 = [CHR 0xC3, CHR 0xA9, CHR 0xC3, CHR 0xA9, CHR 0xC3, CHR 0xA9]"

text \<open>A request from address 10.0.0.1: the authenticated account if any, the outcome of
  binding the body, and the query parameters.\<close>

definition request :: "User option \<Rightarrow> error + 'b \<Rightarrow> (string \<times> string) list \<Rightarrow> 'b Context" where
  "request auth body params =
     \<lparr>Keys = (case auth of
                None \<Rightarrow> [CtxKeyRealIPStr \<mapsto> Str ''10.0.0.1'']
              | Some u \<Rightarrow> [CtxKeyRealIPStr \<mapsto> Str ''10.0.0.1'', CtxKeyAuthorizedUser \<mapsto> UserPtr u]),
      ShouldBindJSON = body,
      QueryParams = map_of params\<rparr>"

text \<open>A rotation request of the account \<^verbatim>\<open>ops\<close>, whose secret is \<^verbatim>\<open>abcdef\<close>.\<close>

definition rotation :: "string \<Rightarrow> string \<Rightarrow> string \<Rightarrow> ProfileForm Context" where
  "rotation original name secret =
     request (Some ops)
       (Inr \<lparr>OriginalPassword = original, NewUsername = name, NewPassword = secret\<rparr>) []"

section \<open>Properties\<close>

subsection \<open>The reference instance, call by call\<close>

lemma mem_simps:
  "CompareHashAndPassword mem h s =
     (if h = mem_hash s then None else Some (LibError ''bcrypt: mismatch''))"
  "GenerateFromPassword mem s k w =
     (if 72 < length s then (Inl (LibError ''bcrypt: password too long''), w)
      else (Inr (mem_hash s), w\<lparr>Log := Log w @ [Hashed s]\<rparr>))"
  "DB_Save mem u w =
     (None, w\<lparr>Accounts := map (\<lambda>r. if ID r = ID u then u else r) (Accounts w),
              Log := Log w @ [Saved u]\<rparr>)"
  "DB_Omit_Find mem cols w =
     (Inr (map (\<lambda>r. if ''password'' \<in> set cols then r\<lparr>User.Password := []\<rparr> else r)
             (Accounts w)),
      w\<lparr>Log := Log w @ [Found cols]\<rparr>)"
  "DB_Create mem u w =
     (let r = u\<lparr>ID := 1 + of_nat (length (Accounts w))\<rparr>
      in (Inr r, w\<lparr>Accounts := Accounts w @ [r], Log := Log w @ [Created r]\<rparr>))"
  "OnUserUpdate mem u w = w\<lparr>Log := Log w @ [Updated u]\<rparr>"
  "OnUserDelete mem ids sink w =
     (None, w\<lparr>Accounts := filter (\<lambda>r. ID r \<notin> set ids) (Accounts w),
              Sessions := filter (\<lambda>s. UserID s \<notin> set ids) (Sessions w),
              Log := Log w @ [Deleted ids]\<rparr>)"
  "GetOnlineUsers mem limit offset w =
     (take (nat limit) (drop (nat offset) (Sessions w)),
      w\<lparr>Log := Log w @ [Listed limit offset]\<rparr>)"
  "GetOnlineUserCount mem w = (int (length (Sessions w)), w\<lparr>Log := Log w @ [Counted]\<rparr>)"
  "BlockByIPs mem = Block is_ipv4"
  by (simp_all add: mem_def)

lemma request_simps:
  "Keys (request None body ps) CtxKeyAuthorizedUser = None"
  "Keys (request (Some u) body ps) CtxKeyAuthorizedUser = Some (UserPtr u)"
  "Keys (request auth body ps) CtxKeyRealIPStr = Some (Str ''10.0.0.1'')"
  "ShouldBindJSON (request auth body ps) = body"
  "QueryParams (request auth body ps) = map_of ps"
  by (simp_all add: request_def split: option.split)

subsection \<open>Reading the profile\<close>

text \<open>
  Claim C7. A profile request with no authenticated identity in the request context
  fails with the error of key \<^verbatim>\<open>unauthorized\<close>, an authentication error. With an
  authenticated account in the context, \<open>getProfile\<close> returns that account together with
  the originating address kept in the context (the empty string when none is kept).
\<close>

theorem getProfile_identity:
  "(Keys c CtxKeyAuthorizedUser = None \<longrightarrow>
      getProfile c = Fail (ErrorT ''unauthorized'')
      \<and> spec_error_kind (ErrorT ''unauthorized'') = AuthenticationError)
   \<and> (Keys c CtxKeyAuthorizedUser = Some (UserPtr u) \<longrightarrow>
      getProfile c = Ok \<lparr>User = u, LoginIP = GetString c CtxKeyRealIPStr\<rparr>)"
  by (simp add: getProfile_def)

theorem getProfile_identity_witness:
  "Keys (request None (Inr ()) []) CtxKeyAuthorizedUser = None
   \<and> getProfile (request None (Inr ()) []) = Fail (ErrorT ''unauthorized'')
   \<and> Keys (request (Some ops) (Inr ()) []) CtxKeyAuthorizedUser = Some (UserPtr ops)
   \<and> getProfile (request (Some ops) (Inr ()) []) = Ok \<lparr>User = ops, LoginIP = ''10.0.0.1''\<rparr>"
  using getProfile_identity [of "request None (Inr ()) []" ops]
    getProfile_identity [of "request (Some ops) (Inr ()) []" ops]
  by (simp add: request_simps GetString_def)

subsection \<open>Batch deletion\<close>

text \<open>
  Claim C1. When the identity list of a batch-delete request contains the identity of
  the calling account, \<open>batchDeleteUser\<close> returns the error of key
  \<^verbatim>\<open>can't delete yourself\<close>, a conflict error, and the state of the world is the one
  it started from. This holds for every deletion operation the handler could be given,
  so \<^verbatim>\<open>OnUserDelete\<close> is not invoked and no account is deleted.
\<close>

theorem batchDeleteUser_self:
  assumes "ShouldBindJSON c = Inr ids"
    and "Keys c CtxKeyAuthorizedUser = Some (UserPtr auth)"
    and "ID auth \<in> set ids"
  shows "batchDeleteUser sv c w = (Fail (ErrorT ''can't delete yourself''), w)
    \<and> spec_error_kind (ErrorT ''can't delete yourself'') = ConflictError"
  using assms by (simp add: batchDeleteUser_def)

text \<open>On the reference instance: the administrator asks to delete accounts 2 and 1 and
  nothing happens, where the request for account 2 alone deletes it and logs the call.\<close>

theorem batchDeleteUser_self_witness:
  "ShouldBindJSON (request (Some admin) (Inr [2, 1 :: uint64]) []) = Inr [2, 1 :: uint64]
   \<and> Keys (request (Some admin) (Inr [2, 1 :: uint64]) []) CtxKeyAuthorizedUser
       = Some (UserPtr admin)
   \<and> ID admin \<in> set [2, 1]
   \<and> batchDeleteUser mem (request (Some admin) (Inr [2, 1 :: uint64]) []) world0
       = (Fail (ErrorT ''can't delete yourself''), world0)
   \<and> Accounts world0 = [admin, ops] \<and> Log world0 = []
   \<and> snd (batchDeleteUser mem (request (Some admin) (Inr [2 :: uint64]) []) world0)
       = world0\<lparr>Accounts := [admin],
                Sessions := [\<lparr>UserID = 1, IP = ''10.0.0.1'', ConnectedAt = 100\<rparr>],
                Log := [Deleted [2]]\<rparr>"
proof -
  have b: "ShouldBindJSON (request (Some admin) (Inr [2, 1 :: uint64]) []) = Inr [2, 1 :: uint64]"
    by (simp add: request_simps)
  have k: "Keys (request (Some admin) (Inr [2, 1 :: uint64]) []) CtxKeyAuthorizedUser
      = Some (UserPtr admin)"
    by (simp add: request_simps)
  have i: "ID admin \<in> set [2, 1]"
    by (simp add: admin_def)
  have d: "snd (batchDeleteUser mem (request (Some admin) (Inr [2 :: uint64]) []) world0)
       = world0\<lparr>Accounts := [admin],
                Sessions := [\<lparr>UserID = 1, IP = ''10.0.0.1'', ConnectedAt = 100\<rparr>],
                Log := [Deleted [2]]\<rparr>"
    by (simp add: batchDeleteUser_def request_simps mem_simps admin_def ops_def world0_def)
  show ?thesis
    using b k i d batchDeleteUser_self [OF b k i, of mem world0]
    by (simp add: world0_def)
qed

subsection \<open>Account creation\<close>

lemma createUser_rejects_short:
  "ShouldBindJSON c = Inr uf \<Longrightarrow> length (UserForm.Password uf) < 6 \<Longrightarrow>
   createUser sv c w = (Fail (ErrorT ''password length must be greater than 6''), w)"
  by (simp add: createUser_def)

lemma createUser_rejects_empty_name:
  "ShouldBindJSON c = Inr uf \<Longrightarrow> 6 \<le> length (UserForm.Password uf) \<Longrightarrow>
   UserForm.Username uf = [] \<Longrightarrow>
   createUser sv c w = (Fail (ErrorT ''username can't be empty''), w)"
  by (simp add: createUser_def)

lemma createUser_Ok:
  assumes "createUser sv c w = (Ok uid, w')"
  shows "\<exists>uf hash w1 u w2. ShouldBindJSON c = Inr uf
     \<and> 6 \<le> length (UserForm.Password uf) \<and> UserForm.Username uf \<noteq> []
     \<and> GenerateFromPassword sv (UserForm.Password uf) DefaultCost w = (Inr hash, w1)
     \<and> DB_Create sv \<lparr>ID = 0, Username = UserForm.Username uf, Password = hash,
          Role = RoleMember\<rparr> w1 = (Inr u, w2)
     \<and> uid = ID u \<and> w' = OnUserUpdate sv u w2"
  using assms
  by (auto simp: createUser_def split: sum.splits if_splits prod.splits)

lemma e_acute3_size: "characters e_acute3 = 3" "length e_acute3 = 6"
  by (simp_all add: characters_def e_acute3_def is_continuation_def)

text \<open>
  Claim C5, with the length the code measures. An account-creation request whose secret
  is shorter than 6 bytes (Go's \<^verbatim>\<open>len\<close>) fails with the error of key
  \<^verbatim>\<open>password length must be greater than 6\<close>, a validation error, and the state of the
  world is the one the handler started from, whatever the hasher and the store would have
  done: the store's create is not reached and no account is persisted.
\<close>

theorem createUser_short_secret:
  assumes "ShouldBindJSON c = Inr uf"
    and "length (UserForm.Password uf) < 6"
  shows "createUser sv c w = (Fail (ErrorT ''password length must be greater than 6''), w)
    \<and> spec_error_kind (ErrorT ''password length must be greater than 6'') = ValidationError"
  using assms by (simp add: createUser_rejects_short)

theorem createUser_short_secret_witness:
  "ShouldBindJSON (request (Some admin) (Inr \<lparr>Username = ''ops2'', Password = ''ab''\<rparr>) [])
     = Inr \<lparr>Username = ''ops2'', Password = ''ab''\<rparr>
   \<and> length (UserForm.Password \<lparr>Username = ''ops2'', Password = ''ab''\<rparr>) < 6
   \<and> createUser mem (request (Some admin) (Inr \<lparr>Username = ''ops2'', Password = ''ab''\<rparr>) [])
        world0
       = (Fail (ErrorT ''password length must be greater than 6''), world0)
   \<and> Accounts world0 = [admin, ops] \<and> Log world0 = []"
proof -
  have b: "ShouldBindJSON (request (Some admin) (Inr \<lparr>Username = ''ops2'', Password = ''ab''\<rparr>) [])
     = Inr \<lparr>Username = ''ops2'', Password = ''ab''\<rparr>"
    by (simp add: request_simps)
  have l: "length (UserForm.Password \<lparr>Username = ''ops2'', Password = ''ab''\<rparr>) < 6"
    by simp
  show ?thesis
    using b l createUser_short_secret [OF b l, of mem world0]
    by (simp add: world0_def)
qed

text \<open>Counted in characters the bound does not hold: a secret of three characters and six
  bytes passes the check, is hashed, and the account is created and stored.\<close>

theorem createUser_accepts_three_characters:
  "characters e_acute3 < 6
   \<and> createUser mem
        (request (Some admin) (Inr \<lparr>Username = ''ops2'', Password = e_acute3\<rparr>) []) world0
       = (Ok 3, world0\<lparr>Accounts := [admin, ops, ops2\<lparr>User.Password := mem_hash e_acute3\<rparr>],
            Log := [Hashed e_acute3,
                    Created (ops2\<lparr>User.Password := mem_hash e_acute3\<rparr>),
                    Updated (ops2\<lparr>User.Password := mem_hash e_acute3\<rparr>)]\<rparr>)"
  by (simp add: e_acute3_size createUser_def request_simps mem_simps world0_def ops2_def
      DefaultCost_def Let_def)

text \<open>
  Claim C10, with the length the code measures. In \<open>createUser\<close> the check of the
  secret's length comes before the check of the display name: a request with an empty name
  gets the short-secret error when its secret is shorter than 6 bytes, and the empty-name
  error only when the secret has at least 6 bytes.
\<close>

theorem createUser_check_order:
  assumes "ShouldBindJSON c = Inr uf"
    and "UserForm.Username uf = []"
  shows "(length (UserForm.Password uf) < 6 \<longrightarrow>
            fst (createUser sv c w) = Fail (ErrorT ''password length must be greater than 6'')
            \<and> fst (createUser sv c w) \<noteq> Fail (ErrorT ''username can't be empty''))
       \<and> (6 \<le> length (UserForm.Password uf) \<longrightarrow>
            fst (createUser sv c w) = Fail (ErrorT ''username can't be empty''))"
  using assms by (simp add: createUser_rejects_short createUser_rejects_empty_name)

theorem createUser_check_order_witness:
  "ShouldBindJSON (request (Some admin) (Inr \<lparr>Username = [], Password = ''ab''\<rparr>) [])
     = Inr \<lparr>Username = [], Password = ''ab''\<rparr>
   \<and> UserForm.Username \<lparr>Username = [], Password = ''ab''\<rparr> = []
   \<and> length (UserForm.Password \<lparr>Username = [], Password = ''ab''\<rparr>) < 6
   \<and> fst (createUser mem (request (Some admin) (Inr \<lparr>Username = [], Password = ''ab''\<rparr>) [])
        world0)
       = Fail (ErrorT ''password length must be greater than 6'')
   \<and> ShouldBindJSON (request (Some admin) (Inr \<lparr>Username = [], Password = ''abcdef''\<rparr>) [])
     = Inr \<lparr>Username = [], Password = ''abcdef''\<rparr>
   \<and> 6 \<le> length (UserForm.Password \<lparr>Username = [], Password = ''abcdef''\<rparr>)
   \<and> fst (createUser mem (request (Some admin) (Inr \<lparr>Username = [], Password = ''abcdef''\<rparr>) [])
        world0)
       = Fail (ErrorT ''username can't be empty'')"
proof -
  have b1: "ShouldBindJSON (request (Some admin) (Inr \<lparr>Username = [], Password = ''ab''\<rparr>) [])
     = Inr \<lparr>Username = [], Password = ''ab''\<rparr>"
    by (simp add: request_simps)
  have b2: "ShouldBindJSON (request (Some admin) (Inr \<lparr>Username = [], Password = ''abcdef''\<rparr>) [])
     = Inr \<lparr>Username = [], Password = ''abcdef''\<rparr>"
    by (simp add: request_simps)
  have n1: "UserForm.Username \<lparr>Username = [], Password = ''ab''\<rparr> = []" by simp
  have n2: "UserForm.Username \<lparr>Username = [], Password = ''abcdef''\<rparr> = []" by simp
  show ?thesis
    using b1 b2 createUser_check_order [OF b1 n1, of mem world0]
      createUser_check_order [OF b2 n2, of mem world0]
    by simp
qed

text \<open>Counted in characters the order is not observed: with an empty name and a secret of
  three characters and six bytes the error is the one of the empty name.\<close>

theorem createUser_name_error_at_three_characters:
  "characters e_acute3 < 6
   \<and> UserForm.Username \<lparr>Username = [], Password = e_acute3\<rparr> = []
   \<and> fst (createUser mem
        (request (Some admin) (Inr \<lparr>Username = [], Password = e_acute3\<rparr>) []) world0)
       = Fail (ErrorT ''username can't be empty'')
   \<and> ErrorT ''username can't be empty'' \<noteq> ErrorT ''password length must be greater than 6''"
  by (simp add: e_acute3_size createUser_def request_simps)

text \<open>
  Claim C9. Whenever \<open>createUser\<close> succeeds, the record it handed to the store's create
  carries the role member, its name is the form's name and its secret the fresh hash of
  the form's secret; the identity returned is the one the store assigned. The form is an
  extensible record: whatever else the request carries, a role included, is not read.
\<close>

theorem createUser_role_member:
  assumes "createUser sv c w = (Ok uid, w')"
  shows "\<exists>uf hash w1 u w2. ShouldBindJSON c = Inr uf
     \<and> GenerateFromPassword sv (UserForm.Password uf) DefaultCost w = (Inr hash, w1)
     \<and> DB_Create sv \<lparr>ID = 0, Username = UserForm.Username uf, Password = hash,
          Role = RoleMember\<rparr> w1 = (Inr u, w2)
     \<and> uid = ID u \<and> w' = OnUserUpdate sv u w2"
  using createUser_Ok [OF assms] by blast

lemma createUser_example:
  "createUser mem
     (request (Some admin) (Inr \<lparr>Username = ''ops2'', Password = ''abcdef'', \<dots> = RoleAdmin\<rparr>) [])
     world0
   = (Ok 3, world0\<lparr>Accounts := [admin, ops, ops2],
                   Log := [Hashed ''abcdef'', Created ops2, Updated ops2]\<rparr>)"
  by (simp add: createUser_def request_simps mem_simps world0_def ops2_def DefaultCost_def Let_def)

theorem createUser_role_member_witness:
  "createUser mem
     (request (Some admin) (Inr \<lparr>Username = ''ops2'', Password = ''abcdef'', \<dots> = RoleAdmin\<rparr>) [])
     world0
   = (Ok 3, world0\<lparr>Accounts := [admin, ops, ops2],
                   Log := [Hashed ''abcdef'', Created ops2, Updated ops2]\<rparr>)
   \<and> Role ops2 = RoleMember
   \<and> (\<exists>hash w1 u w2.
        GenerateFromPassword mem ''abcdef'' DefaultCost world0 = (Inr hash, w1)
        \<and> DB_Create mem \<lparr>ID = 0, Username = ''ops2'', Password = hash, Role = RoleMember\<rparr> w1
            = (Inr u, w2)
        \<and> (3 :: uint64) = ID u)"
  using createUser_example createUser_role_member [OF createUser_example]
  by (auto simp: request_simps ops2_def)

subsection \<open>Profile rotation\<close>

lemma updateProfile_mismatch:
  "ShouldBindJSON c = Inr pf \<Longrightarrow> Keys c CtxKeyAuthorizedUser = Some (UserPtr user) \<Longrightarrow>
   CompareHashAndPassword sv (User.Password user) (OriginalPassword pf) = Some e \<Longrightarrow>
   updateProfile sv c w = (Fail (ErrorT ''incorrect password''), w)"
  by (simp add: updateProfile_def)

lemma updateProfile_rotates:
  "ShouldBindJSON c = Inr pf \<Longrightarrow> Keys c CtxKeyAuthorizedUser = Some (UserPtr user) \<Longrightarrow>
   CompareHashAndPassword sv (User.Password user) (OriginalPassword pf) = None \<Longrightarrow>
   GenerateFromPassword sv (NewPassword pf) DefaultCost w = (Inr hash, w1) \<Longrightarrow>
   DB_Save sv (user\<lparr>User.Username := NewUsername pf, User.Password := hash\<rparr>) w1 = (None, w2) \<Longrightarrow>
   updateProfile sv c w = (Ok (), w2)"
  by (simp add: updateProfile_def)

lemma updateProfile_Ok:
  assumes "ShouldBindJSON c = Inr pf" and "Keys c CtxKeyAuthorizedUser = Some (UserPtr user)"
    and "updateProfile sv c w = (Ok (), w')"
  shows "CompareHashAndPassword sv (User.Password user) (OriginalPassword pf) = None
     \<and> (\<exists>hash w1. GenerateFromPassword sv (NewPassword pf) DefaultCost w = (Inr hash, w1)
          \<and> DB_Save sv (user\<lparr>User.Username := NewUsername pf, User.Password := hash\<rparr>) w1
              = (None, w'))"
  using assms
  by (auto simp: updateProfile_def split: option.splits sum.splits prod.splits)

text \<open>
  Claim C6. For a profile-rotation request of an authenticated account: when the
  supplied current secret does not verify against the stored hash, \<open>updateProfile\<close>
  returns the error of key \<^verbatim>\<open>incorrect password\<close>, an authentication error, and the
  state of the world is unchanged, so nothing is hashed and nothing is saved. It succeeds
  exactly when the secret verifies, the hasher returns a hash of the new secret, and the
  store saves the account with the new display name and that hash without an error; the
  state it leaves is the state after that save.
\<close>

theorem updateProfile_verifies_secret:
  assumes "ShouldBindJSON c = Inr pf"
    and "Keys c CtxKeyAuthorizedUser = Some (UserPtr user)"
  shows "(CompareHashAndPassword sv (User.Password user) (OriginalPassword pf) \<noteq> None \<longrightarrow>
            updateProfile sv c w = (Fail (ErrorT ''incorrect password''), w)
            \<and> spec_error_kind (ErrorT ''incorrect password'') = AuthenticationError)
       \<and> (\<forall>w'. updateProfile sv c w = (Ok (), w') \<longleftrightarrow>
            CompareHashAndPassword sv (User.Password user) (OriginalPassword pf) = None
            \<and> (\<exists>hash w1.
                  GenerateFromPassword sv (NewPassword pf) DefaultCost w = (Inr hash, w1)
                  \<and> DB_Save sv (user\<lparr>User.Username := NewUsername pf,
                                      User.Password := hash\<rparr>) w1 = (None, w')))"
proof -
  have mismatch:
    "CompareHashAndPassword sv (User.Password user) (OriginalPassword pf) \<noteq> None \<longrightarrow>
       updateProfile sv c w = (Fail (ErrorT ''incorrect password''), w)
       \<and> spec_error_kind (ErrorT ''incorrect password'') = AuthenticationError"
    using assms by (auto intro: updateProfile_mismatch)
  have success:
    "updateProfile sv c w = (Ok (), w') \<longleftrightarrow>
       CompareHashAndPassword sv (User.Password user) (OriginalPassword pf) = None
       \<and> (\<exists>hash w1.
             GenerateFromPassword sv (NewPassword pf) DefaultCost w = (Inr hash, w1)
             \<and> DB_Save sv (user\<lparr>User.Username := NewUsername pf,
                                 User.Password := hash\<rparr>) w1 = (None, w'))"
    (is "?L \<longleftrightarrow> ?R") for w'
  proof
    assume ?L
    with assms show ?R by (rule updateProfile_Ok)
  next
    assume ?R
    with assms show ?L by (auto intro: updateProfile_rotates)
  qed
  from mismatch success show ?thesis by blast
qed

lemma rotation_simps:
  "ShouldBindJSON (rotation original name secret)
     = Inr \<lparr>OriginalPassword = original, NewUsername = name, NewPassword = secret\<rparr>"
  "Keys (rotation original name secret) CtxKeyAuthorizedUser = Some (UserPtr ops)"
  by (simp_all add: rotation_def request_simps)

lemma updateProfile_example:
  "length secret \<le> 72 \<Longrightarrow>
   updateProfile mem (rotation ''abcdef'' name secret) world0
     = (Ok (), world0\<lparr>Accounts := [admin, ops\<lparr>User.Username := name, User.Password := mem_hash secret\<rparr>],
          Log := [Hashed secret, Saved (ops\<lparr>User.Username := name, User.Password := mem_hash secret\<rparr>)]\<rparr>)"
  by (simp add: updateProfile_def rotation_simps mem_simps world0_def ops_def admin_def)

theorem updateProfile_verifies_secret_witness:
  "ShouldBindJSON (rotation ''wrong-secret'' ''operations'' ''s3cret-new'')
     = Inr \<lparr>OriginalPassword = ''wrong-secret'', NewUsername = ''operations'',
            NewPassword = ''s3cret-new''\<rparr>
   \<and> Keys (rotation ''wrong-secret'' ''operations'' ''s3cret-new'') CtxKeyAuthorizedUser
       = Some (UserPtr ops)
   \<and> CompareHashAndPassword mem (User.Password ops) ''wrong-secret'' \<noteq> None
   \<and> updateProfile mem (rotation ''wrong-secret'' ''operations'' ''s3cret-new'') world0
       = (Fail (ErrorT ''incorrect password''), world0)
   \<and> CompareHashAndPassword mem (User.Password ops) ''abcdef'' = None
   \<and> updateProfile mem (rotation ''abcdef'' ''operations'' ''s3cret-new'') world0
       = (Ok (), world0\<lparr>Accounts := [admin, ops\<lparr>User.Username := ''operations'',
                                                 User.Password := mem_hash ''s3cret-new''\<rparr>],
            Log := [Hashed ''s3cret-new'',
                    Saved (ops\<lparr>User.Username := ''operations'',
                               User.Password := mem_hash ''s3cret-new''\<rparr>)]\<rparr>)
   \<and> (\<exists>hash w1. GenerateFromPassword mem ''s3cret-new'' DefaultCost world0 = (Inr hash, w1)
         \<and> fst (DB_Save mem (ops\<lparr>User.Username := ''operations'', User.Password := hash\<rparr>) w1)
             = None)"
proof -
  have bad: "CompareHashAndPassword mem (User.Password ops) ''wrong-secret'' \<noteq> None"
    by (simp add: mem_simps ops_def mem_hash_def)
  have good: "CompareHashAndPassword mem (User.Password ops) ''abcdef'' = None"
    by (simp add: mem_simps ops_def)
  have ok: "updateProfile mem (rotation ''abcdef'' ''operations'' ''s3cret-new'') world0
       = (Ok (), world0\<lparr>Accounts := [admin, ops\<lparr>User.Username := ''operations'',
                                                 User.Password := mem_hash ''s3cret-new''\<rparr>],
            Log := [Hashed ''s3cret-new'',
                    Saved (ops\<lparr>User.Username := ''operations'',
                               User.Password := mem_hash ''s3cret-new''\<rparr>)]\<rparr>)"
    by (rule updateProfile_example) simp
  show ?thesis
    using bad good ok
      updateProfile_verifies_secret [OF rotation_simps(1) rotation_simps(2),
        of mem "''wrong-secret''" "''operations''" "''s3cret-new''" world0]
      updateProfile_verifies_secret [OF rotation_simps(1) rotation_simps(2),
        of mem "''abcdef''" "''operations''" "''s3cret-new''" world0]
    by (auto simp: rotation_simps)
qed

text \<open>
  Claim C3. Every operation that stores an account keeps the account invariants: the raw
  secret has length at least 6 before hashing and the display name is not empty. The
  creation path checks both (\<open>createUser_validates\<close> below). The rotation path checks
  neither: on the reference instance the account \<^verbatim>\<open>ops\<close> rotates to the empty display
  name and the three-byte secret \<^verbatim>\<open>abc\<close>, the handler succeeds, and the store holds the
  account with the empty name and the hash of \<^verbatim>\<open>abc\<close>.
\<close>

theorem updateProfile_stores_short_secret:
  "updateProfile mem (rotation ''abcdef'' [] ''abc'') world0
     = (Ok (), world0\<lparr>Accounts := [admin, ops\<lparr>User.Username := [],
                                               User.Password := mem_hash ''abc''\<rparr>],
          Log := [Hashed ''abc'',
                  Saved (ops\<lparr>User.Username := [], User.Password := mem_hash ''abc''\<rparr>)]\<rparr>)
   \<and> length ''abc'' < (6 :: nat)"
  by (simp add: updateProfile_example)

lemma createUser_validates:
  "createUser sv c w = (Ok uid, w') \<Longrightarrow> ShouldBindJSON c = Inr uf \<Longrightarrow>
   6 \<le> length (UserForm.Password uf) \<and> UserForm.Username uf \<noteq> []"
  by (auto simp: createUser_def split: if_splits)

subsection \<open>Account listing\<close>

lemma Omit_contract_mem: "Omit_contract mem"
  by (auto simp: Omit_contract_def mem_simps)

lemma listUser_example:
  "listUser mem (request (Some admin) (Inr ()) []) world0
     = (Ok [admin\<lparr>User.Password := []\<rparr>, ops\<lparr>User.Password := []\<rparr>],
        world0\<lparr>Log := [Found [''password'']]\<rparr>)"
  by (simp add: listUser_def mem_simps world0_def)

text \<open>
  Claim C8. Under the contract of the store's \<^verbatim>\<open>Omit\<close>, every successful account
  listing returns exactly the records of the query that omits the column
  \<^verbatim>\<open>password\<close>, so no element of the result of \<open>listUser\<close> carries the stored hash:
  the secret field of each is empty.
\<close>

theorem listUser_omits_password:
  assumes "Omit_contract sv"
    and "listUser sv c w = (Ok users, w')"
  shows "DB_Omit_Find sv [''password''] w = (Inr users, w')
    \<and> (\<forall>u \<in> set users. User.Password u = [])"
proof -
  from assms(2) have found: "DB_Omit_Find sv [''password''] w = (Inr users, w')"
    by (auto simp: listUser_def split: prod.splits sum.splits)
  moreover have "''password'' \<in> set [''password'']"
    by simp
  ultimately have "\<forall>u \<in> set users. User.Password u = []"
    using assms(1) unfolding Omit_contract_def by blast
  with found show ?thesis by simp
qed

theorem listUser_omits_password_witness:
  "listUser mem (request (Some admin) (Inr ()) []) world0
     = (Ok [admin\<lparr>User.Password := []\<rparr>, ops\<lparr>User.Password := []\<rparr>],
        world0\<lparr>Log := [Found [''password'']]\<rparr>)
   \<and> User.Password admin = mem_hash ''hunter22''
   \<and> User.Password (admin\<lparr>User.Password := []\<rparr>) = []
   \<and> User.Password (ops\<lparr>User.Password := []\<rparr>) = []
   \<and> list_all (\<lambda>u. User.Password u = []) [admin\<lparr>User.Password := []\<rparr>, ops\<lparr>User.Password := []\<rparr>]"
  using listUser_example listUser_omits_password [OF Omit_contract_mem listUser_example]
  by (simp add: admin_def)

subsection \<open>Online users\<close>

lemma Atoi_examples:
  "Atoi ''abc'' = Inl (LibError ''strconv.Atoi'')"
  "Atoi [] = Inl (LibError ''strconv.Atoi'')"
  "Atoi ''-5'' = Inr (- 5)"
  "Atoi ''0'' = Inr 0"
  "Atoi ''1'' = Inr 1"
  "Atoi ''9223372036854775808'' = Inl (LibError ''strconv.Atoi'')"
  by (simp_all add: Atoi_def is_digit_def)

text \<open>
  Claim C2. For every value of the query parameters \<^verbatim>\<open>limit\<close> and \<^verbatim>\<open>offset\<close>, present
  or not, \<open>listOnlineUser\<close> returns a page and no error. A limit that does not parse
  or is below 1 becomes 25, an offset that does not parse or is negative becomes 0; the
  registry is queried with these two values, and the page's pagination fields carry them.
\<close>

theorem listOnlineUser_clamps:
  "\<exists>page w'.
     listOnlineUser sv c w = (Ok page, w')
     \<and> Limit (Pagination page)
         = (case Atoi (Query c ''limit'') of Inl err \<Rightarrow> 25 | Inr n \<Rightarrow> if n < 1 then 25 else n)
     \<and> Offset (Pagination page)
         = (case Atoi (Query c ''offset'') of Inl err \<Rightarrow> 0 | Inr n \<Rightarrow> if n < 0 then 0 else n)
     \<and> 1 \<le> Limit (Pagination page) \<and> 0 \<le> Offset (Pagination page)
     \<and> Value page
         = fst (GetOnlineUsers sv (Limit (Pagination page)) (Offset (Pagination page)) w)"
  by (auto simp: listOnlineUser_def Let_def split: prod.splits sum.splits)

theorem listOnlineUser_clamps_witness:
  "listOnlineUser mem (request (Some ops) (Inr ()) [(''limit'', ''abc''), (''offset'', ''-5'')]) world0
     = (Ok \<lparr>Value = Sessions world0, Pagination = \<lparr>Offset = 0, Limit = 25, Total = 2\<rparr>\<rparr>,
        world0\<lparr>Log := [Listed 25 0, Counted]\<rparr>)
   \<and> listOnlineUser mem (request (Some ops) (Inr ()) [(''limit'', ''0'')]) world0
     = (Ok \<lparr>Value = Sessions world0, Pagination = \<lparr>Offset = 0, Limit = 25, Total = 2\<rparr>\<rparr>,
        world0\<lparr>Log := [Listed 25 0, Counted]\<rparr>)
   \<and> listOnlineUser mem (request (Some ops) (Inr ()) [(''limit'', ''1''), (''offset'', ''1'')]) world0
     = (Ok \<lparr>Value = [\<lparr>UserID = 2, IP = ''10.0.0.2'', ConnectedAt = 200\<rparr>],
            Pagination = \<lparr>Offset = 1, Limit = 1, Total = 2\<rparr>\<rparr>,
        world0\<lparr>Log := [Listed 1 1, Counted]\<rparr>)
   \<and> (\<exists>page w'.
        listOnlineUser mem
          (request (Some ops) (Inr ()) [(''limit'', ''9223372036854775808'')]) world0
          = (Ok page, w')
        \<and> Limit (Pagination page) = 25 \<and> Offset (Pagination page) = 0)"
  using listOnlineUser_clamps
    [of mem "request (Some ops) (Inr ()) [(''limit'', ''9223372036854775808'')]" world0]
  by (auto simp: listOnlineUser_def request_simps Query_def Atoi_examples mem_simps world0_def)

subsection \<open>Blocking\<close>

lemma Block_malformed:
  assumes "\<not> list_all wellformed list"
  shows "\<exists>a \<in> set list. \<not> wellformed a
    \<and> Block wellformed list w = (Some (MalformedAddress a), w)"
proof -
  from assms have "find (\<lambda>a. \<not> wellformed a) list \<noteq> None"
    by (auto simp: find_None_iff list_all_iff)
  then obtain a where found: "find (\<lambda>a. \<not> wellformed a) list = Some a"
    by blast
  then have "a \<in> set list" and "\<not> wellformed a"
    by (auto simp: find_Some_iff)
  with found show ?thesis
    by (auto simp: Block_def)
qed

lemma Block_wellformed:
  assumes "list_all wellformed list"
  shows "fst (Block wellformed list w) = None"
proof -
  from assms have "find (\<lambda>a. \<not> wellformed a) list = None"
    by (auto simp: find_None_iff list_all_iff)
  then show ?thesis
    by (simp add: Block_def)
qed

lemma is_ipv4_examples:
  "is_ipv4 ''10.0.0.1''" "is_ipv4 ''10.0.0.2''" "\<not> is_ipv4 ''not-an-address''"
  by (simp_all add: is_ipv4_def octet_def is_digit_def)

lemma batchBlock_example_bad:
  "batchBlockOnlineUser mem (request (Some admin) (Inr [''10.0.0.2'', ''not-an-address'']) []) world0
     = (Fail (GormError ''%v'' (MalformedAddress ''not-an-address'')), world0)"
  by (simp add: batchBlockOnlineUser_def request_simps mem_simps Block_def is_ipv4_examples
      newGormError_def)

text \<open>
  Claim C4. With the gate of the specification behind \<^verbatim>\<open>BlockByIPs\<close>, each address of a
  batch-block request is validated. When some address is malformed the operation fails:
  the handler returns the gate's validation error of a malformed address of the list,
  passed through \<^verbatim>\<open>newGormError\<close> with the format \<^verbatim>\<open>%v\<close>, and by its cause that error
  is a validation error. When all addresses are well-formed the operation succeeds.
\<close>

theorem batchBlockOnlineUser_validates:
  assumes "ShouldBindJSON c = Inr list"
    and "BlockByIPs sv = Block wellformed"
  shows "(\<not> list_all wellformed list \<longrightarrow>
            (\<exists>a \<in> set list. \<not> wellformed a
               \<and> fst (batchBlockOnlineUser sv c w)
                   = Fail (newGormError ''%v'' (MalformedAddress a))
               \<and> spec_error_kind (newGormError ''%v'' (MalformedAddress a)) = ValidationError))
       \<and> (list_all wellformed list \<longrightarrow> fst (batchBlockOnlineUser sv c w) = Ok ())"
proof (intro conjI impI)
  assume "\<not> list_all wellformed list"
  then obtain a where "a \<in> set list" "\<not> wellformed a"
    "Block wellformed list w = (Some (MalformedAddress a), w)"
    using Block_malformed [of wellformed list w] by blast
  with assms show "\<exists>a \<in> set list. \<not> wellformed a
               \<and> fst (batchBlockOnlineUser sv c w)
                   = Fail (newGormError ''%v'' (MalformedAddress a))
               \<and> spec_error_kind (newGormError ''%v'' (MalformedAddress a)) = ValidationError"
    by (auto simp: batchBlockOnlineUser_def newGormError_def)
next
  assume "list_all wellformed list"
  then have "fst (Block wellformed list w) = None"
    by (simp add: Block_wellformed)
  with assms show "fst (batchBlockOnlineUser sv c w) = Ok ()"
    by (auto simp: batchBlockOnlineUser_def split: prod.splits option.splits)
qed

theorem batchBlockOnlineUser_validates_witness:
  "ShouldBindJSON (request (Some admin) (Inr [''10.0.0.2'', ''not-an-address'']) [])
     = Inr [''10.0.0.2'', ''not-an-address'']
   \<and> BlockByIPs mem = Block is_ipv4
   \<and> \<not> list_all is_ipv4 [''10.0.0.2'', ''not-an-address'']
   \<and> batchBlockOnlineUser mem
        (request (Some admin) (Inr [''10.0.0.2'', ''not-an-address'']) []) world0
       = (Fail (GormError ''%v'' (MalformedAddress ''not-an-address'')), world0)
   \<and> spec_error_kind (GormError ''%v'' (MalformedAddress ''not-an-address'')) = ValidationError
   \<and> ShouldBindJSON (request (Some admin) (Inr [''10.0.0.1'']) []) = Inr [''10.0.0.1'']
   \<and> list_all is_ipv4 [''10.0.0.1'']
   \<and> batchBlockOnlineUser mem (request (Some admin) (Inr [''10.0.0.1'']) []) world0
       = (Ok (), world0\<lparr>BlockSet := {''10.0.0.1''},
                       Sessions := [\<lparr>UserID = 2, IP = ''10.0.0.2'', ConnectedAt = 200\<rparr>],
                       Log := [Blocked [''10.0.0.1'']]\<rparr>)"
proof -
  have b1: "ShouldBindJSON (request (Some admin) (Inr [''10.0.0.2'', ''not-an-address'']) [])
     = Inr [''10.0.0.2'', ''not-an-address'']"
    by (simp add: request_simps)
  have b2: "ShouldBindJSON (request (Some admin) (Inr [''10.0.0.1'']) []) = Inr [''10.0.0.1'']"
    by (simp add: request_simps)
  have g: "BlockByIPs mem = Block is_ipv4"
    by (simp add: mem_simps)
  have good: "batchBlockOnlineUser mem (request (Some admin) (Inr [''10.0.0.1'']) []) world0
       = (Ok (), world0\<lparr>BlockSet := {''10.0.0.1''},
                       Sessions := [\<lparr>UserID = 2, IP = ''10.0.0.2'', ConnectedAt = 200\<rparr>],
                       Log := [Blocked [''10.0.0.1'']]\<rparr>)"
    by (simp add: batchBlockOnlineUser_def request_simps mem_simps Block_def is_ipv4_examples
        world0_def)
  show ?thesis
    using b1 b2 g good batchBlock_example_bad
      batchBlockOnlineUser_validates [OF b1 g, of world0]
      batchBlockOnlineUser_validates [OF b2 g, of world0]
    by (simp add: is_ipv4_examples)
qed

end
